theory Spec2Isabelle
  imports Main "HOL-Library.Word" "HOL-Library.Signed_Division"
begin

section \<open>The tracker core of goat: announce, scrape and the UDP packet codec\<close>

text \<open>
  The development follows the Go sources: the announce and scrape engines
  (\<open>trackerAnnounce\<close>, \<open>trackerScrape\<close>), the response builders
  (\<open>httpTrackerAnnounce\<close>, \<open>httpTrackerError\<close>, \<open>udpTrackerAnnounce\<close>,
  \<open>udpTrackerError\<close>) and the parsers of the UDP packets (\<open>FromBytes\<close>).

  Go's \<open>int\<close> and \<open>int64\<close> are 64-bit words read as two's complement, \<open>uint32\<close>
  is a 32-bit word, a byte is an 8-bit word.
\<close>

type_synonym byte = "8 word"
type_synonym int64 = "64 word"
type_synonym uint32 = "32 word"

subsection \<open>Records of the store\<close>

text \<open>
  Modelled from the spec: the declarations of \<open>userRecord\<close>, \<open>fileRecord\<close>,
  \<open>fileUserRecord\<close>, \<open>announceLog\<close> and \<open>scrapeLog\<close> are not among the sources.
  The records below have the fields the engines read and write, with the fields of the
  spec's data model; the counters are \<open>int64\<close>, compared as signed numbers.
  A Go struct compared with its zero value (\<open>file == (fileRecord{})\<close>) is an
  equality with the record of zero fields.
\<close>

record userRecord =
  user_ID :: int64

record fileRecord =
  file_ID :: int64
  file_InfoHash :: string
  file_Verified :: bool

record fileUserRecord =
  fu_FileID :: int64
  fu_UserID :: int64
  fu_IP :: string
  fu_Active :: bool
  fu_Completed :: bool
  fu_Announced :: int64
  fu_Uploaded :: int64
  fu_Downloaded :: int64
  fu_Left :: int64

record announceLog =
  an_InfoHash :: string
  an_IP :: string
  an_Port :: int64
  an_UDP :: bool
  an_Uploaded :: int64
  an_Downloaded :: int64
  an_Left :: int64
  an_Event :: string

record scrapeLog =
  sc_InfoHash :: string
  sc_IP :: string

definition fileRecord_zero :: fileRecord where
  "fileRecord_zero = \<lparr>file_ID = 0, file_InfoHash = [], file_Verified = False\<rparr>"

definition fileUserRecord_zero :: fileUserRecord where
  "fileUserRecord_zero =
     \<lparr>fu_FileID = 0, fu_UserID = 0, fu_IP = [], fu_Active = False, fu_Completed = False,
      fu_Announced = 0, fu_Uploaded = 0, fu_Downloaded = 0, fu_Left = 0\<rparr>"

definition announceLog_zero :: announceLog where
  "announceLog_zero =
     \<lparr>an_InfoHash = [], an_IP = [], an_Port = 0, an_UDP = False, an_Uploaded = 0,
      an_Downloaded = 0, an_Left = 0, an_Event = []\<rparr>"

definition scrapeLog_zero :: scrapeLog where
  "scrapeLog_zero = \<lparr>sc_InfoHash = [], sc_IP = []\<rparr>"

subsection \<open>The query map, the store facade and the configuration\<close>

text \<open>
  A query is a Go \<open>map[string]string\<close>; reading a missing key gives the empty string.
\<close>

type_synonym query = "string \<rightharpoonup> string"

definition qget :: "query \<Rightarrow> string \<Rightarrow> string" where
  "qget q k = (case q k of None \<Rightarrow> [] | Some v \<Rightarrow> v)"

text \<open>
  The methods of the records that reach the database (\<open>Load\<close>, \<open>Seeders\<close>,
  \<open>Leechers\<close>, \<open>Completed\<close>, \<open>PeerList\<close>), the parsers \<open>FromMap\<close> of the two logs
  and the configured \<open>static.Config.Interval\<close> are defined outside the sources at hand:
  the engines take them as the fields of an environment. A \<open>Load\<close> that finds nothing
  returns the zero record.
\<close>

record env =
  announce_FromMap :: "query \<Rightarrow> announceLog"
  scrape_FromMap :: "query \<Rightarrow> scrapeLog"
  file_Load :: "string \<Rightarrow> fileRecord"
  fileUser_Load :: "int64 \<Rightarrow> int64 \<Rightarrow> string \<Rightarrow> fileUserRecord"
  Seeders :: "fileRecord \<Rightarrow> int64"
  Leechers :: "fileRecord \<Rightarrow> int64"
  Completed :: "fileRecord \<Rightarrow> int64"
  PeerList :: "fileRecord \<Rightarrow> string \<Rightarrow> int64 \<Rightarrow> byte list"
  Config_Interval :: int64

text \<open>
  Every \<open>go x.Save()\<close> and \<open>go file.PeerReaper()\<close> of the engines is an asynchronous
  request to the store. An engine returns the bytes it sends on \<open>resChan\<close> together with
  the list of requests it has launched, in the order of the \<open>go\<close> statements.
\<close>

datatype effect =
    AnnounceSave announceLog
  | ScrapeSave scrapeLog
  | FileSave fileRecord
  | PeerReaper fileRecord
  | FileUserSave fileUserRecord

subsection \<open>Responses\<close>

text \<open>
  The bencode library is an external package: an HTTP response is kept as the dictionary
  handed to \<open>bencode.EncDictMap\<close>, whose values are the arguments of \<open>EncInt\<close>,
  \<open>EncString\<close> and \<open>EncBytes\<close>. A UDP response is the packed datagram itself.
\<close>

datatype bval = EncInt int | EncString string | EncBytes "byte list"

datatype response = EncDictMap "string \<rightharpoonup> bval" | Datagram "byte list"

text \<open>\<open>binary.Write(res, binary.BigEndian, uint32(x))\<close>: four bytes, most significant first.\<close>

definition be32 :: "uint32 \<Rightarrow> byte list" where
  "be32 w = [ucast (drop_bit 24 w), ucast (drop_bit 16 w), ucast (drop_bit 8 w), ucast w]"

text \<open>\<open>[]byte(msg)\<close> of a Go string: its bytes.\<close>

definition bytes_of_string :: "string \<Rightarrow> byte list" where
  "bytes_of_string s = map (\<lambda>c. of_nat (of_char c)) s"

text \<open>Go's \<open>/\<close> on signed integers truncates towards zero.\<close>

definition go_div :: "int64 \<Rightarrow> int64 \<Rightarrow> int64" where
  "go_div a b = word_of_int (sint a sdiv sint b)"

text \<open>
  Modelled from the spec: \<open>randRange\<close> is not among the sources. The spec writes
  \<open>randRange(lo, hi)\<close> for an interval drawn between \<open>lo\<close> and \<open>hi\<close>; the draw of
  the random source is the argument \<open>r\<close>.
\<close>

definition randRange :: "nat \<Rightarrow> int \<Rightarrow> int \<Rightarrow> int" where
  "randRange r lo hi = lo + int r mod (hi - lo + 1)"

text \<open>
  \<open>strconv.Atoi\<close>: an optional sign and at least one decimal digit, within the range of
  \<open>int\<close>; \<open>None\<close> stands for a non-nil error.
\<close>

definition is_digit :: "char \<Rightarrow> bool" where
  "is_digit c = (48 \<le> (of_char c :: nat) \<and> (of_char c :: nat) \<le> 57)"

definition decimal :: "string \<Rightarrow> int" where
  "decimal ds = foldl (\<lambda>n c. 10 * n + (of_char c - 48)) 0 ds"

definition Atoi :: "string \<Rightarrow> int64 option" where
  "Atoi s =
     (let neg = (s \<noteq> [] \<and> hd s = CHR ''-'');
          ds = (if s \<noteq> [] \<and> (hd s = CHR ''-'' \<or> hd s = CHR ''+'') then tl s else s);
          v = (if neg then - decimal ds else decimal ds)
      in if ds = [] \<or> \<not> list_all is_digit ds then None
         else if v < - (2 ^ 63) \<or> 2 ^ 63 \<le> v then None
         else Some (word_of_int v))"

subsection \<open>Response builders\<close>

definition udpTrackerError :: "string \<Rightarrow> byte list \<Rightarrow> response" where
  "udpTrackerError msg transID = Datagram (be32 3 @ transID @ bytes_of_string msg)"

definition httpTrackerError :: "env \<Rightarrow> nat \<Rightarrow> string \<Rightarrow> response" where
  "httpTrackerError e r err =
     EncDictMap
       [''failure reason'' \<mapsto> EncString err,
        ''interval'' \<mapsto>
           EncInt (randRange r (sint (Config_Interval e - 600)) (sint (Config_Interval e))),
        ''min interval'' \<mapsto> EncInt (sint (go_div (Config_Interval e) 2))]"

definition udpTrackerAnnounce :: "env \<Rightarrow> nat \<Rightarrow> query \<Rightarrow> fileRecord \<Rightarrow> byte list \<Rightarrow> response" where
  "udpTrackerAnnounce e r q file transID =
     (case Atoi (qget q ''numwant'') of
        None \<Rightarrow> udpTrackerError ''Could not create UDP announce response'' transID
      | Some numwant \<Rightarrow>
          Datagram
            (be32 1 @ transID
             @ be32 (word_of_int
                  (randRange r (sint (Config_Interval e - 600)) (sint (Config_Interval e))))
             @ be32 (ucast (Leechers e file))
             @ be32 (ucast (Seeders e file))
             @ PeerList e file (qget q ''ip'') numwant))"

definition httpTrackerAnnounce :: "env \<Rightarrow> nat \<Rightarrow> query \<Rightarrow> fileRecord \<Rightarrow> fileUserRecord \<Rightarrow> response" where
  "httpTrackerAnnounce e r q file fileUser =
     (let res = [''complete'' \<mapsto> EncInt (sint (Seeders e file)),
                 ''incomplete'' \<mapsto> EncInt (sint (Leechers e file))];
          res = (if fu_Completed fileUser = False
                 then res(''interval'' \<mapsto> EncInt (randRange r 300 600),
                          ''min interval'' \<mapsto> EncInt 300)
                 else res(''interval'' \<mapsto>
                            EncInt (randRange r (sint (Config_Interval e - 600))
                                      (sint (Config_Interval e))),
                          ''min interval'' \<mapsto> EncInt (sint (go_div (Config_Interval e) 2))));
          numwant = (case q ''numwant'' of
                       None \<Rightarrow> 50
                     | Some s \<Rightarrow> (case Atoi s of None \<Rightarrow> 50 | Some num \<Rightarrow> num))
      in EncDictMap (res(''peers'' \<mapsto> EncBytes (PeerList e file (qget q ''ip'') numwant))))"

text \<open>
  \<open>hex.DecodeString\<close>: two hexadecimal digits for each byte; \<open>None\<close> stands for a
  non-nil error (an odd length or a character that is no hexadecimal digit).
\<close>

definition hex_val :: "char \<Rightarrow> nat option" where
  "hex_val c =
     (let n = (of_char c :: nat)
      in if 48 \<le> n \<and> n \<le> 57 then Some (n - 48)
         else if 97 \<le> n \<and> n \<le> 102 then Some (n - 87)
         else if 65 \<le> n \<and> n \<le> 70 then Some (n - 55)
         else None)"

fun hex_DecodeString :: "string \<Rightarrow> byte list option" where
  "hex_DecodeString [] = Some []"
| "hex_DecodeString [c] = None"
| "hex_DecodeString (c # d # cs) =
     (case (hex_val c, hex_val d) of
        (Some a, Some b) \<Rightarrow>
          (case hex_DecodeString cs of
             None \<Rightarrow> None
           | Some bs \<Rightarrow> Some (of_nat (16 * a + b) # bs))
      | _ \<Rightarrow> None)"

definition httpTrackerScrape :: "env \<Rightarrow> query \<Rightarrow> fileRecord \<Rightarrow> response" where
  "httpTrackerScrape e q file =
     (let hash = (case hex_DecodeString (file_InfoHash file) of None \<Rightarrow> [] | Some h \<Rightarrow> h)
      in EncDictMap
           [''files'' \<mapsto> EncBytes hash,
            ''complete'' \<mapsto> EncInt (sint (Seeders e file)),
            ''downloaded'' \<mapsto> EncInt (sint (Completed e file)),
            ''incomplete'' \<mapsto> EncInt (sint (Leechers e file))])"

subsection \<open>The scrape and announce engines\<close>

text \<open>
  Both engines take the environment, the draw \<open>r\<close> of the random source used by the
  one \<open>randRange\<close> call of the response, and the arguments of the Go function.
\<close>

definition trackerScrape :: "env \<Rightarrow> nat \<Rightarrow> userRecord \<Rightarrow> query \<Rightarrow> response \<times> effect list" where
  "trackerScrape e r user q =
     (let scrape = scrape_FromMap e q
      in if scrape = scrapeLog_zero then (httpTrackerError e r ''Malformed scrape'', [])
         else
           let file = file_Load e (sc_InfoHash scrape)
           in if file = fileRecord_zero
              then (httpTrackerError e r ''Unregistered torrent'', [ScrapeSave scrape])
              else if \<not> file_Verified file
              then (httpTrackerError e r ''Unverified torrent'', [ScrapeSave scrape])
              else (httpTrackerScrape e q file, [ScrapeSave scrape, PeerReaper file]))"

text \<open>The two branches of \<open>trackerAnnounce\<close> on the loaded file/user relationship.\<close>

definition newFileUser :: "fileRecord \<Rightarrow> userRecord \<Rightarrow> query \<Rightarrow> announceLog \<Rightarrow> fileUserRecord \<Rightarrow> fileUserRecord" where
  "newFileUser file user q announce fileUser =
     fileUser
       \<lparr>fu_FileID := file_ID file,
        fu_UserID := user_ID user,
        fu_IP := qget q ''ip'',
        fu_Active := True,
        fu_Announced := 1,
        fu_Completed := (if an_Left announce = 0 then True else False),
        fu_Uploaded := an_Uploaded announce,
        fu_Downloaded := an_Downloaded announce,
        fu_Left := an_Left announce\<rparr>"

definition updateFileUser :: "announceLog \<Rightarrow> fileUserRecord \<Rightarrow> fileUserRecord" where
  "updateFileUser announce fileUser =
     (let fileUser = fileUser\<lparr>fu_Active := (if an_Event announce = ''stopped'' then False else True)\<rparr>;
          fileUser = fileUser\<lparr>fu_Completed :=
                       (if an_Event announce = ''completed'' \<or> an_Left announce = 0
                        then True else False)\<rparr>;
          fileUser = fileUser\<lparr>fu_Announced := fu_Announced fileUser + 1\<rparr>;
          fileUser = (if fu_Uploaded fileUser <s an_Uploaded announce
                      then fileUser\<lparr>fu_Uploaded := an_Uploaded announce\<rparr> else fileUser);
          fileUser = (if fu_Downloaded fileUser <s an_Downloaded announce
                      then fileUser\<lparr>fu_Downloaded := an_Downloaded announce\<rparr> else fileUser);
          fileUser = (if an_Left announce <s fu_Left fileUser
                      then fileUser\<lparr>fu_Left := an_Left announce\<rparr> else fileUser)
      in fileUser)"

definition trackerAnnounce :: "env \<Rightarrow> nat \<Rightarrow> userRecord \<Rightarrow> query \<Rightarrow> byte list \<Rightarrow> response \<times> effect list" where
  "trackerAnnounce e r user q transID =
     (let announce = announce_FromMap e q
      in if announce = announceLog_zero then (httpTrackerError e r ''Malformed announce'', [])
         else
           let file = file_Load e (an_InfoHash announce)
           in if file = fileRecord_zero
              then ((if \<not> an_UDP announce
                     then httpTrackerError e r ''Unregistered torrent''
                     else udpTrackerError ''Unregistered torrent'' transID),
                    [AnnounceSave announce,
                     FileSave (file\<lparr>file_InfoHash := an_InfoHash announce, file_Verified := False\<rparr>)])
              else if \<not> file_Verified file
              then ((if \<not> an_UDP announce
                     then httpTrackerError e r ''Unverified torrent''
                     else udpTrackerError ''Unverified torrent'' transID),
                    [AnnounceSave announce])
              else if an_UDP announce
              then (udpTrackerAnnounce e r q file transID, [AnnounceSave announce, PeerReaper file])
              else
                let fileUser = fileUser_Load e (file_ID file) (user_ID user) (qget q ''ip'');
                    fileUser = (if fileUser = fileUserRecord_zero
                                then newFileUser file user q announce fileUser
                                else updateFileUser announce fileUser)
                in (httpTrackerAnnounce e r q file fileUser,
                    [AnnounceSave announce, PeerReaper file, FileUserSave fileUser]))"

subsection \<open>Go slices and recovered panics\<close>

text \<open>
  A Go slice has a length and a capacity: \<open>buf[i]\<close> panics unless \<open>i < len(buf)\<close>,
  while \<open>buf[lo:hi]\<close> panics unless \<open>lo \<le> hi \<le> cap(buf)\<close> and may so read the
  backing array beyond the length. A slice is its elements together with the rest of
  the backing array; \<open>None\<close> is the run-time panic.
\<close>

record slice =
  elems :: "byte list"
  spare :: "byte list"

definition go_len :: "slice \<Rightarrow> nat" where
  "go_len buf = length (elems buf)"

definition go_cap :: "slice \<Rightarrow> nat" where
  "go_cap buf = length (elems buf) + length (spare buf)"

definition go_index :: "slice \<Rightarrow> nat \<Rightarrow> byte option" where
  "go_index buf i = (if i < go_len buf then Some (elems buf ! i) else None)"

definition go_slice :: "slice \<Rightarrow> nat \<Rightarrow> nat \<Rightarrow> byte list option" where
  "go_slice buf lo hi =
     (if lo \<le> hi \<and> hi \<le> go_cap buf
      then Some (take (hi - lo) (drop lo (elems buf @ spare buf)))
      else None)"

text \<open>\<open>string(b)\<close> of a byte slice.\<close>

definition string_of_bytes :: "byte list \<Rightarrow> string" where
  "string_of_bytes bs = map (\<lambda>b. char_of (unat b)) bs"


text \<open>
  The errors of the parsers: \<open>errors.New(msg)\<close>, which holds the message alone, and the
  package variable \<open>errUDPInteger\<close>.
\<close>

datatype error = errors_New string | errUDPInteger





text \<open>
  The body of a parser either panics (\<open>None\<close>), returns early with an error
  (\<open>Some (Inl err)\<close>) or goes on with a value (\<open>Some (Inr x)\<close>).
\<close>

definition andThen :: "(error + 'a) option \<Rightarrow> ('a \<Rightarrow> (error + 'b) option) \<Rightarrow> (error + 'b) option" where
  "andThen m f = (case m of None \<Rightarrow> None | Some (Inl err) \<Rightarrow> Some (Inl err) | Some (Inr x) \<Rightarrow> f x)"



subsection \<open>udpPacket\<close>




text \<open>
  The deferred function of each parser: a recovered panic replaces the results by the
  zero packet and a new error with a fixed message.
\<close>

definition recovered :: "'p \<Rightarrow> string \<Rightarrow> (error + 'p) option \<Rightarrow> 'p \<times> error option" where
  "recovered zero msg body =
     (case body of
        None \<Rightarrow> (zero, Some (errors_New msg))
      | Some (Inl err) \<Rightarrow> (zero, Some err)
      | Some (Inr p) \<Rightarrow> (p, None))"


subsection \<open>udpAnnouncePacket\<close>





subsection \<open>udpAnnounceResponsePacket\<close>






subsection \<open>udpScrapePacket\<close>

record udpScrapePacket =
  InfoHashes :: "string list"

definition udpScrapePacket_zero :: udpScrapePacket where
  "udpScrapePacket_zero = \<lparr>InfoHashes = []\<rparr>"

text \<open>
  The loop \<open>for i := 16; i < 16+(70*20); i += 20\<close>, which breaks at a zero byte
  \<open>buf[i]\<close> and appends \<open>string(buf[i:i+20])\<close> otherwise.
\<close>

function scrape_loop :: "slice \<Rightarrow> nat \<Rightarrow> string list \<Rightarrow> string list option" where
  "scrape_loop buf i hashes =
     (if i < 16 + 70 * 20
      then (case go_index buf i of
              None \<Rightarrow> None
            | Some b \<Rightarrow>
                if b = 0 then Some hashes
                else (case go_slice buf i (i + 20) of
                        None \<Rightarrow> None
                      | Some bs \<Rightarrow> scrape_loop buf (i + 20) (hashes @ [string_of_bytes bs])))
      else Some hashes)"
  by pat_completeness auto
termination
  by (relation "measure (\<lambda>(buf, i, hashes). (16 + 70 * 20) - i)") auto

definition udpScrapePacket_body :: "udpScrapePacket \<Rightarrow> slice \<Rightarrow> (error + udpScrapePacket) option" where
  "udpScrapePacket_body u buf =
     andThen (map_option Inr (scrape_loop buf 16 []))
       (\<lambda>hashes. Some (Inr (u\<lparr>InfoHashes := hashes\<rparr>)))"

definition udpScrapePacket_FromBytes :: "udpScrapePacket \<Rightarrow> slice \<Rightarrow> udpScrapePacket \<times> error option" where
  "udpScrapePacket_FromBytes u buf =
     recovered udpScrapePacket_zero ''failed to create udpScrapePacket from bytes''
       (udpScrapePacket_body u buf)"


declare scrape_loop.simps [simp del]

text \<open>The \<open>k\<close>-th info-hash of a scrape request: the twenty bytes at offset \<open>16 + 20 k\<close>.\<close>

definition info_hash_at :: "slice \<Rightarrow> nat \<Rightarrow> string" where
  "info_hash_at buf k = string_of_bytes (take 20 (drop (16 + 20 * k) (elems buf @ spare buf)))"

subsection \<open>Example values\<close>

text \<open>
  A verified file, a user, announces and an environment whose store holds one file and
  one file/user relationship; the theorems below are instantiated at these values.
\<close>

definition demo_file :: fileRecord where
  "demo_file = \<lparr>file_ID = 7, file_InfoHash = ''6161'', file_Verified = True\<rparr>"

definition demo_user :: userRecord where
  "demo_user = \<lparr>user_ID = 3\<rparr>"

definition demo_announce :: "bool \<Rightarrow> string \<Rightarrow> int64 \<Rightarrow> int64 \<Rightarrow> int64 \<Rightarrow> announceLog" where
  "demo_announce udp event up down left =
     \<lparr>an_InfoHash = ''6161'', an_IP = ''10.0.0.1'', an_Port = 6881, an_UDP = udp,
      an_Uploaded = up, an_Downloaded = down, an_Left = left, an_Event = event\<rparr>"

definition demo_fileUser :: fileUserRecord where
  "demo_fileUser =
     \<lparr>fu_FileID = 7, fu_UserID = 3, fu_IP = ''10.0.0.1'', fu_Active = True, fu_Completed = True,
      fu_Announced = 2, fu_Uploaded = 500, fu_Downloaded = 1000, fu_Left = 2000\<rparr>"

definition demo_env :: "announceLog \<Rightarrow> fileRecord \<Rightarrow> fileUserRecord \<Rightarrow> env" where
  "demo_env announce file fileUser =
     \<lparr>announce_FromMap = (\<lambda>q. announce),
      scrape_FromMap = (\<lambda>q. \<lparr>sc_InfoHash = ''6161'', sc_IP = ''10.0.0.1''\<rparr>),
      file_Load = (\<lambda>h. file),
      fileUser_Load = (\<lambda>f u ip. fileUser),
      Seeders = (\<lambda>f. 1),
      Leechers = (\<lambda>f. 2),
      Completed = (\<lambda>f. 1),
      PeerList = (\<lambda>f ip n. [10, 0, 0, 2, 26, 225]),
      Config_Interval = 3600\<rparr>"

definition demo_query :: query where
  "demo_query = [''ip'' \<mapsto> ''10.0.0.1'', ''numwant'' \<mapsto> ''50'']"


text \<open>
  Buffers of the UDP codec: a scrape request with a zeroed header followed by the given
  bytes, and a buffer of twelve zero bytes followed by a transaction id. Both have no
  spare capacity.
\<close>

definition scrape_buffer :: "byte list \<Rightarrow> slice" where
  "scrape_buffer hashes = \<lparr>elems = replicate 16 0 @ hashes, spare = []\<rparr>"



section \<open>Properties of the announce and scrape engines\<close>

subsection \<open>Auxiliary facts\<close>

lemma trackerAnnounce_http_verified:
  assumes "announce_FromMap e q = announce" "announce \<noteq> announceLog_zero" "\<not> an_UDP announce"
    and "file_Load e (an_InfoHash announce) = file" "file_Verified file"
    and "fileUser_Load e (file_ID file) (user_ID user) (qget q ''ip'') = prior"
  shows "trackerAnnounce e r user q transID =
           (let fileUser = (if prior = fileUserRecord_zero
                            then newFileUser file user q announce prior
                            else updateFileUser announce prior)
            in (httpTrackerAnnounce e r q file fileUser,
                [AnnounceSave announce, PeerReaper file, FileUserSave fileUser]))"
proof -
  have "file \<noteq> fileRecord_zero"
    using assms(5) by (auto simp: fileRecord_zero_def)
  then show ?thesis
    using assms by (simp add: trackerAnnounce_def Let_def)
qed

lemma updateFileUser_fields:
  "fu_Completed (updateFileUser a p) = (an_Event a = ''completed'' \<or> an_Left a = 0)"
  "fu_Active (updateFileUser a p) = (an_Event a \<noteq> ''stopped'')"
  "fu_Announced (updateFileUser a p) = fu_Announced p + 1"
  "sint (fu_Uploaded (updateFileUser a p)) = max (sint (fu_Uploaded p)) (sint (an_Uploaded a))"
  "sint (fu_Downloaded (updateFileUser a p)) = max (sint (fu_Downloaded p)) (sint (an_Downloaded a))"
  "sint (fu_Left (updateFileUser a p)) = min (sint (fu_Left p)) (sint (an_Left a))"
  by (simp_all add: updateFileUser_def Let_def word_sless_alt max_def min_def)


lemma sint_go_div_2: "sint (go_div c 2) = sint c sdiv 2"
proof -
  have b: "- (2 ^ 63) \<le> sint c" "sint c < 2 ^ 63"
    using sint_ge [of c] sint_lt [of c] by simp_all
  have "- (2 ^ 63) \<le> sint c sdiv 2 \<and> sint c sdiv 2 < 2 ^ 63"
    using b by (auto simp: signed_divide_int_def sgn_if abs_if)
  then have "signed_take_bit 63 (sint c sdiv 2) = sint c sdiv 2"
    by (simp add: signed_take_bit_int_eq_self)
  then show ?thesis
    by (simp add: go_div_def sint_sbintrunc')
qed

lemma sint_minus_600:
  assumes "- (2 ^ 63) + 600 \<le> sint (c :: int64)"
  shows "sint (c - 600) = sint c - 600"
proof -
  have "sint c < 2 ^ 63"
    using sint_lt [of c] by simp
  then have "signed_take_bit 63 (sint c - 600) = sint c - 600"
    using assms by (simp add: signed_take_bit_int_eq_self)
  then show ?thesis
    by (simp add: sint_word_ariths)
qed

lemma randRange_bounds: "lo \<le> hi \<Longrightarrow> lo \<le> randRange r lo hi \<and> randRange r lo hi \<le> hi"
  unfolding randRange_def
  using pos_mod_bound [of "hi - lo + 1" "int r"] pos_mod_sign [of "hi - lo + 1" "int r"]
  by auto


lemmas demo_defs = demo_env_def demo_announce_def demo_file_def demo_user_def demo_fileUser_def
  demo_query_def announceLog_zero_def fileRecord_zero_def fileUserRecord_zero_def qget_def

lemma updateFileUser_sequence:
  "sint (fu_Uploaded p) \<le> sint (fu_Uploaded (foldl (\<lambda>fu a. updateFileUser a fu) p as)) \<and>
   sint (fu_Downloaded p) \<le> sint (fu_Downloaded (foldl (\<lambda>fu a. updateFileUser a fu) p as)) \<and>
   sint (fu_Left (foldl (\<lambda>fu a. updateFileUser a fu) p as)) \<le> sint (fu_Left p)"
proof (induction as arbitrary: p)
  case Nil
  show ?case by simp
next
  case (Cons a as)
  have "sint (fu_Uploaded p) \<le> sint (fu_Uploaded (updateFileUser a p))"
    "sint (fu_Downloaded p) \<le> sint (fu_Downloaded (updateFileUser a p))"
    "sint (fu_Left (updateFileUser a p)) \<le> sint (fu_Left p)"
    by (simp_all add: updateFileUser_fields)
  with Cons.IH [of "updateFileUser a p"] show ?case
    by (simp del: foldl_Cons add: foldl_Cons [of _ p a as])
qed

lemma be32_3: "be32 3 = [0, 0, 0, 3]"
  by (simp add: be32_def)

lemma Atoi_50: "Atoi ''50'' = Some 50"
  by (simp add: Atoi_def decimal_def is_digit_def)

subsection \<open>The completed flag of an updated record\<close>

text \<open>
  Claim C1, as the code has it. An HTTP announce on a verified torrent that finds a
  file/user record saves the record with a completed flag equal to
  (event is "completed" or the reported left is 0): the flag is computed from the
  announce alone and the prior flag is not kept.
\<close>

theorem announce_update_completed:
  assumes "announce_FromMap e q = announce" "announce \<noteq> announceLog_zero" "\<not> an_UDP announce"
    and "file_Load e (an_InfoHash announce) = file" "file_Verified file"
    and "fileUser_Load e (file_ID file) (user_ID user) (qget q ''ip'') = prior"
    and "prior \<noteq> fileUserRecord_zero"
  shows "\<exists>fileUser.
           snd (trackerAnnounce e r user q transID) =
             [AnnounceSave announce, PeerReaper file, FileUserSave fileUser] \<and>
           fu_Completed fileUser = (an_Event announce = ''completed'' \<or> an_Left announce = 0)"
  using trackerAnnounce_http_verified [OF assms(1-6), of r transID] assms(7)
  by (simp add: Let_def updateFileUser_fields)

theorem announce_update_completed_witness:
  "\<exists>fileUser.
     snd (trackerAnnounce (demo_env (demo_announce False ''completed'' 200 900 3000) demo_file demo_fileUser)
            0 demo_user demo_query []) =
       [AnnounceSave (demo_announce False ''completed'' 200 900 3000), PeerReaper demo_file,
        FileUserSave fileUser] \<and>
     fu_Completed fileUser"
  using announce_update_completed
    [of "demo_env (demo_announce False ''completed'' 200 900 3000) demo_file demo_fileUser"
        demo_query "demo_announce False ''completed'' 200 900 3000" demo_file demo_user
        demo_fileUser 0 "[]"]
  by (simp add: demo_defs)

text \<open>
  Claim C1 as stated fails: the record \<open>demo_fileUser\<close> is completed, and an announce
  with no event and 3000 bytes left saves it with the completed flag false.
\<close>

theorem announce_completed_counterexample:
  "fu_Completed demo_fileUser \<and>
   snd (trackerAnnounce (demo_env (demo_announce False [] 200 900 3000) demo_file demo_fileUser)
          0 demo_user demo_query []) =
     [AnnounceSave (demo_announce False [] 200 900 3000), PeerReaper demo_file,
      FileUserSave
        \<lparr>fu_FileID = 7, fu_UserID = 3, fu_IP = ''10.0.0.1'', fu_Active = True,
         fu_Completed = False, fu_Announced = 3, fu_Uploaded = 500, fu_Downloaded = 1000,
         fu_Left = 2000\<rparr>]"
  by (simp add: trackerAnnounce_def updateFileUser_def Let_def demo_defs)

subsection \<open>The counters of an updated record\<close>

text \<open>
  Claim C2. An HTTP announce on a verified torrent that finds a file/user record saves
  it with uploaded = max (prior, reported), downloaded = max (prior, reported) and
  left = min (prior, reported), the counters read as signed 64-bit numbers. Hence over
  any sequence of such updates uploaded and downloaded never decrease and left never
  increases.
\<close>

theorem announce_update_counters:
  assumes "announce_FromMap e q = announce" "announce \<noteq> announceLog_zero" "\<not> an_UDP announce"
    and "file_Load e (an_InfoHash announce) = file" "file_Verified file"
    and "fileUser_Load e (file_ID file) (user_ID user) (qget q ''ip'') = prior"
    and "prior \<noteq> fileUserRecord_zero"
  shows "(\<exists>fileUser.
            snd (trackerAnnounce e r user q transID) =
              [AnnounceSave announce, PeerReaper file, FileUserSave fileUser] \<and>
            sint (fu_Uploaded fileUser) = max (sint (fu_Uploaded prior)) (sint (an_Uploaded announce)) \<and>
            sint (fu_Downloaded fileUser) = max (sint (fu_Downloaded prior)) (sint (an_Downloaded announce)) \<and>
            sint (fu_Left fileUser) = min (sint (fu_Left prior)) (sint (an_Left announce))) \<and>
         (\<forall>as. sint (fu_Uploaded prior) \<le> sint (fu_Uploaded (foldl (\<lambda>fu a. updateFileUser a fu) prior as)) \<and>
               sint (fu_Downloaded prior) \<le> sint (fu_Downloaded (foldl (\<lambda>fu a. updateFileUser a fu) prior as)) \<and>
               sint (fu_Left (foldl (\<lambda>fu a. updateFileUser a fu) prior as)) \<le> sint (fu_Left prior))"
proof -
  have "\<exists>fileUser.
            snd (trackerAnnounce e r user q transID) =
              [AnnounceSave announce, PeerReaper file, FileUserSave fileUser] \<and>
            sint (fu_Uploaded fileUser) = max (sint (fu_Uploaded prior)) (sint (an_Uploaded announce)) \<and>
            sint (fu_Downloaded fileUser) = max (sint (fu_Downloaded prior)) (sint (an_Downloaded announce)) \<and>
            sint (fu_Left fileUser) = min (sint (fu_Left prior)) (sint (an_Left announce))"
    using trackerAnnounce_http_verified [OF assms(1-6), of r transID] assms(7)
    by (simp add: Let_def updateFileUser_fields)
  then show ?thesis
    using updateFileUser_sequence [of prior] by blast
qed

theorem announce_update_counters_witness:
  "snd (trackerAnnounce (demo_env (demo_announce False [] 200 900 3000) demo_file demo_fileUser)
            0 demo_user demo_query []) =
       [AnnounceSave (demo_announce False [] 200 900 3000), PeerReaper demo_file,
        FileUserSave (demo_fileUser\<lparr>fu_Completed := False, fu_Announced := 3\<rparr>)] \<and>
   sint (fu_Uploaded demo_fileUser) = max (sint (fu_Uploaded demo_fileUser)) 200 \<and>
   sint (fu_Downloaded demo_fileUser) = max (sint (fu_Downloaded demo_fileUser)) 900 \<and>
   sint (fu_Left demo_fileUser) = min (sint (fu_Left demo_fileUser)) 3000"
  using announce_update_counters
    [of "demo_env (demo_announce False [] 200 900 3000) demo_file demo_fileUser"
        demo_query "demo_announce False [] 200 900 3000" demo_file demo_user
        demo_fileUser 0 "[]"]
  by (simp add: trackerAnnounce_def updateFileUser_def Let_def demo_defs)

subsection \<open>The active flag of a new record\<close>

text \<open>
  Claim C3, as the code has it. An HTTP announce on a verified torrent that finds no
  file/user record saves a new record that is active and has one announce, whatever the
  event of the announce.
\<close>

theorem announce_new_record_active:
  assumes "announce_FromMap e q = announce" "announce \<noteq> announceLog_zero" "\<not> an_UDP announce"
    and "file_Load e (an_InfoHash announce) = file" "file_Verified file"
    and "fileUser_Load e (file_ID file) (user_ID user) (qget q ''ip'') = fileUserRecord_zero"
  shows "snd (trackerAnnounce e r user q transID) =
           [AnnounceSave announce, PeerReaper file,
            FileUserSave (newFileUser file user q announce fileUserRecord_zero)] \<and>
         fu_Active (newFileUser file user q announce fileUserRecord_zero) \<and>
         fu_Announced (newFileUser file user q announce fileUserRecord_zero) = 1"
  using trackerAnnounce_http_verified [OF assms(1-6), of r transID]
  by (simp add: Let_def newFileUser_def)

theorem announce_new_record_active_witness:
  "snd (trackerAnnounce (demo_env (demo_announce False ''started'' 0 0 3000) demo_file fileUserRecord_zero)
          0 demo_user demo_query []) =
     [AnnounceSave (demo_announce False ''started'' 0 0 3000), PeerReaper demo_file,
      FileUserSave
        (newFileUser demo_file demo_user demo_query (demo_announce False ''started'' 0 0 3000)
           fileUserRecord_zero)] \<and>
   fu_Active
     (newFileUser demo_file demo_user demo_query (demo_announce False ''started'' 0 0 3000)
        fileUserRecord_zero)"
  using announce_new_record_active
    [of "demo_env (demo_announce False ''started'' 0 0 3000) demo_file fileUserRecord_zero"
        demo_query "demo_announce False ''started'' 0 0 3000" demo_file demo_user 0 "[]"]
  by (simp add: demo_defs)

text \<open>
  Claim C3 as stated fails: a first announce with the event "stopped" creates the record
  with the active flag true.
\<close>

theorem announce_stopped_fresh_counterexample:
  "snd (trackerAnnounce (demo_env (demo_announce False ''stopped'' 0 0 3000) demo_file fileUserRecord_zero)
          0 demo_user demo_query []) =
     [AnnounceSave (demo_announce False ''stopped'' 0 0 3000), PeerReaper demo_file,
      FileUserSave
        \<lparr>fu_FileID = 7, fu_UserID = 3, fu_IP = ''10.0.0.1'', fu_Active = True,
         fu_Completed = False, fu_Announced = 1, fu_Uploaded = 0, fu_Downloaded = 0,
         fu_Left = 3000\<rparr>]"
  by (simp add: trackerAnnounce_def newFileUser_def Let_def demo_defs)

subsection \<open>Announces for an unknown info-hash\<close>

text \<open>
  Claim C4. A well-formed announce whose info-hash matches no file is answered with the
  error "Unregistered torrent": over UDP the datagram of action 3, the transaction id of
  the request and the message; over HTTP the dictionary whose failure reason is the
  message. The engine requests the save of a file row with that info-hash and
  verified = false.
\<close>

theorem announce_unregistered:
  assumes "announce_FromMap e q = announce" "announce \<noteq> announceLog_zero"
    and "file_Load e (an_InfoHash announce) = fileRecord_zero"
  shows "trackerAnnounce e r user q transID =
           ((if an_UDP announce
             then Datagram ([0, 0, 0, 3] @ transID @ bytes_of_string ''Unregistered torrent'')
             else httpTrackerError e r ''Unregistered torrent''),
            [AnnounceSave announce,
             FileSave \<lparr>file_ID = 0, file_InfoHash = an_InfoHash announce, file_Verified = False\<rparr>]) \<and>
         (\<exists>d. httpTrackerError e r ''Unregistered torrent'' = EncDictMap d \<and>
              d ''failure reason'' = Some (EncString ''Unregistered torrent''))"
  using assms
  by (simp add: trackerAnnounce_def Let_def udpTrackerError_def be32_3 httpTrackerError_def
      fileRecord_zero_def)

theorem announce_unregistered_witness:
  "trackerAnnounce (demo_env (demo_announce True ''started'' 0 0 3000) fileRecord_zero fileUserRecord_zero)
       0 demo_user demo_query [1, 2, 3, 4] =
     (Datagram ([0, 0, 0, 3] @ [1, 2, 3, 4] @ bytes_of_string ''Unregistered torrent''),
      [AnnounceSave (demo_announce True ''started'' 0 0 3000),
       FileSave \<lparr>file_ID = 0, file_InfoHash = ''6161'', file_Verified = False\<rparr>])"
  using announce_unregistered
    [of "demo_env (demo_announce True ''started'' 0 0 3000) fileRecord_zero fileUserRecord_zero"
        demo_query "demo_announce True ''started'' 0 0 3000" 0 demo_user "[1, 2, 3, 4]"]
  by (simp add: demo_defs)

subsection \<open>UDP announces are anonymous\<close>

text \<open>
  Claim C5. A well-formed UDP announce on a verified torrent is answered by
  \<open>udpTrackerAnnounce\<close> from the file alone: action 1, the transaction id, an interval,
  the leechers and seeders of the file and its peer list. The engine launches the save of
  the announce log and the peer reaper, and no save of a file/user record; the result is
  the same for every user and every content of the file/user table, which is not read.
\<close>

theorem udp_announce_anonymous:
  assumes "announce_FromMap e q = announce" "announce \<noteq> announceLog_zero" "an_UDP announce"
    and "file_Load e (an_InfoHash announce) = file" "file_Verified file"
  shows "trackerAnnounce e r user q transID =
           (udpTrackerAnnounce e r q file transID, [AnnounceSave announce, PeerReaper file]) \<and>
         trackerAnnounce (e\<lparr>fileUser_Load := load'\<rparr>) r user' q transID =
           trackerAnnounce e r user q transID \<and>
         (\<forall>numwant. Atoi (qget q ''numwant'') = Some numwant \<longrightarrow>
            udpTrackerAnnounce e r q file transID =
              Datagram
                (be32 1 @ transID
                 @ be32 (word_of_int
                      (randRange r (sint (Config_Interval e - 600)) (sint (Config_Interval e))))
                 @ be32 (ucast (Leechers e file))
                 @ be32 (ucast (Seeders e file))
                 @ PeerList e file (qget q ''ip'') numwant))"
proof -
  have nz: "file \<noteq> fileRecord_zero"
    using assms(5) by (auto simp: fileRecord_zero_def)
  have one: "trackerAnnounce e r user q transID =
           (udpTrackerAnnounce e r q file transID, [AnnounceSave announce, PeerReaper file])"
    using assms nz by (simp add: trackerAnnounce_def Let_def)
  have two: "trackerAnnounce (e\<lparr>fileUser_Load := load'\<rparr>) r user' q transID =
           (udpTrackerAnnounce e r q file transID, [AnnounceSave announce, PeerReaper file])"
    using assms nz by (simp add: trackerAnnounce_def Let_def udpTrackerAnnounce_def split: option.split)
  show ?thesis
    using one two by (simp add: udpTrackerAnnounce_def)
qed

theorem udp_announce_anonymous_witness:
  "trackerAnnounce (demo_env (demo_announce True ''started'' 0 0 3000) demo_file demo_fileUser)
       7 demo_user demo_query [1, 2, 3, 4] =
     (Datagram [0, 0, 0, 1, 1, 2, 3, 4, 0, 0, 11, 191, 0, 0, 0, 2, 0, 0, 0, 1, 10, 0, 0, 2, 26, 225],
      [AnnounceSave (demo_announce True ''started'' 0 0 3000), PeerReaper demo_file])"
  using udp_announce_anonymous
    [of "demo_env (demo_announce True ''started'' 0 0 3000) demo_file demo_fileUser"
        demo_query "demo_announce True ''started'' 0 0 3000" demo_file 7 demo_user "[1, 2, 3, 4]"]
  by (simp add: demo_defs Atoi_50 be32_def randRange_def)

subsection \<open>The interval policy\<close>

text \<open>
  Claim C7. In the dictionary of an HTTP announce response, a record that is not
  completed gets an interval between 300 and 600 and a min interval of 300; a completed
  record gets an interval between \<open>Interval - 600\<close> and \<open>Interval\<close> and a min interval
  of \<open>Interval / 2\<close> (truncated), for every configured \<open>Interval\<close> from which 600 can
  be subtracted without wrap-around.
\<close>

theorem httpTrackerAnnounce_intervals:
  "\<exists>d. httpTrackerAnnounce e r q file fileUser = EncDictMap d \<and>
     (\<not> fu_Completed fileUser \<longrightarrow>
        (\<exists>i. d ''interval'' = Some (EncInt i) \<and> 300 \<le> i \<and> i \<le> 600) \<and>
        d ''min interval'' = Some (EncInt 300)) \<and>
     (fu_Completed fileUser \<and> - (2 ^ 63) + 600 \<le> sint (Config_Interval e) \<longrightarrow>
        (\<exists>i. d ''interval'' = Some (EncInt i) \<and>
             sint (Config_Interval e) - 600 \<le> i \<and> i \<le> sint (Config_Interval e)) \<and>
        d ''min interval'' = Some (EncInt (sint (Config_Interval e) sdiv 2)))"
proof (cases "fu_Completed fileUser")
  case False
  then show ?thesis
    using randRange_bounds [of 300 600 r]
    by (simp add: httpTrackerAnnounce_def Let_def)
next
  case True
  show ?thesis
  proof (cases "- (2 ^ 63) + 600 \<le> sint (Config_Interval e)")
    case False
    with True show ?thesis
      by (simp add: httpTrackerAnnounce_def Let_def)
  next
    case ok: True
    have "sint (Config_Interval e - 600) \<le> sint (Config_Interval e)"
      using sint_minus_600 [OF ok] by simp
    from randRange_bounds [OF this, of r] True show ?thesis
      by (simp add: httpTrackerAnnounce_def Let_def sint_minus_600 [OF ok] sint_go_div_2)
  qed
qed

theorem httpTrackerAnnounce_intervals_witness:
  "fu_Completed demo_fileUser \<and>
   (\<exists>d. httpTrackerAnnounce (demo_env (demo_announce False [] 200 900 0) demo_file demo_fileUser)
          7 demo_query demo_file demo_fileUser = EncDictMap d \<and>
        (\<exists>i. d ''interval'' = Some (EncInt i) \<and> 3000 \<le> i \<and> i \<le> 3600) \<and>
        d ''min interval'' = Some (EncInt 1800)) \<and>
   (\<exists>d. httpTrackerAnnounce (demo_env (demo_announce False [] 200 900 0) demo_file demo_fileUser)
          7 demo_query demo_file (demo_fileUser\<lparr>fu_Completed := False\<rparr>) = EncDictMap d \<and>
        (\<exists>i. d ''interval'' = Some (EncInt i) \<and> 300 \<le> i \<and> i \<le> 600) \<and>
        d ''min interval'' = Some (EncInt 300))"
  using httpTrackerAnnounce_intervals
    [of "demo_env (demo_announce False [] 200 900 0) demo_file demo_fileUser" 7 demo_query
        demo_file demo_fileUser]
    httpTrackerAnnounce_intervals
    [of "demo_env (demo_announce False [] 200 900 0) demo_file demo_fileUser" 7 demo_query
        demo_file "demo_fileUser\<lparr>fu_Completed := False\<rparr>"]
  by (simp add: demo_env_def demo_fileUser_def signed_divide_int_def)

subsection \<open>Scrapes for an unknown info-hash\<close>

text \<open>
  Claim C8. A well-formed scrape whose info-hash matches no file is answered with the
  error "Unregistered torrent" and launches the save of the scrape log only; no scrape,
  whatever its input, requests the save of a file row.
\<close>

theorem scrape_unregistered:
  "(scrape_FromMap e q \<noteq> scrapeLog_zero \<and>
    file_Load e (sc_InfoHash (scrape_FromMap e q)) = fileRecord_zero \<longrightarrow>
      trackerScrape e r user q =
        (httpTrackerError e r ''Unregistered torrent'', [ScrapeSave (scrape_FromMap e q)]) \<and>
      (\<exists>d. httpTrackerError e r ''Unregistered torrent'' = EncDictMap d \<and>
           d ''failure reason'' = Some (EncString ''Unregistered torrent''))) \<and>
   (\<forall>file. FileSave file \<notin> set (snd (trackerScrape e r user q)))"
  by (auto simp: trackerScrape_def Let_def httpTrackerError_def)

theorem scrape_unregistered_witness:
  "trackerScrape (demo_env (demo_announce False [] 0 0 0) fileRecord_zero fileUserRecord_zero)
      0 demo_user demo_query =
     (httpTrackerError (demo_env (demo_announce False [] 0 0 0) fileRecord_zero fileUserRecord_zero)
        0 ''Unregistered torrent'',
      [ScrapeSave \<lparr>sc_InfoHash = ''6161'', sc_IP = ''10.0.0.1''\<rparr>])"
  using scrape_unregistered
    [of "demo_env (demo_announce False [] 0 0 0) fileRecord_zero fileUserRecord_zero" demo_query
        0 demo_user]
  by (simp add: demo_env_def scrapeLog_zero_def)

section \<open>Properties of the UDP packet codec\<close>

subsection \<open>Hexadecimal strings and big-endian numbers\<close>




























subsection \<open>The parsers as functions of the backing array\<close>





lemma scrape_loop_step:
  assumes "k < 70" "16 + 20 * k < go_len buf" "elems buf ! (16 + 20 * k) \<noteq> 0"
    and "16 + 20 * k + 20 \<le> go_cap buf"
  shows "scrape_loop buf (16 + 20 * k) acc =
           scrape_loop buf (16 + 20 * Suc k) (acc @ [info_hash_at buf k])"
  using assms
  by (subst scrape_loop.simps) (simp add: go_index_def go_slice_def info_hash_at_def)

lemma scrape_loop_run:
  assumes "j \<le> m" "m \<le> 70"
    and "\<forall>k. j \<le> k \<and> k < m \<longrightarrow>
           16 + 20 * k < go_len buf \<and> elems buf ! (16 + 20 * k) \<noteq> 0 \<and>
           16 + 20 * k + 20 \<le> go_cap buf"
  shows "scrape_loop buf (16 + 20 * j) acc =
           scrape_loop buf (16 + 20 * m) (acc @ map (info_hash_at buf) [j..<m])"
  using assms
proof (induction "m - j" arbitrary: j acc)
  case 0
  then show ?case by simp
next
  case (Suc d)
  then have lt: "j < m" and k: "j < 70" by auto
  have here: "16 + 20 * j < go_len buf" "elems buf ! (16 + 20 * j) \<noteq> 0"
    "16 + 20 * j + 20 \<le> go_cap buf"
    using Suc.prems(3) lt by auto
  have "scrape_loop buf (16 + 20 * Suc j) (acc @ [info_hash_at buf j]) =
          scrape_loop buf (16 + 20 * m) ((acc @ [info_hash_at buf j]) @ map (info_hash_at buf) [Suc j..<m])"
    using Suc.hyps(2) Suc.prems lt by (intro Suc.hyps(1)) auto
  then show ?case
    using scrape_loop_step [OF k here, of acc] lt by (simp add: upt_conv_Cons)
qed

lemma scrape_loop_end: "scrape_loop buf (16 + 20 * 70) acc = Some acc"
  by (subst scrape_loop.simps) simp

lemma scrape_loop_zero:
  assumes "j < 70" "16 + 20 * j < go_len buf" "elems buf ! (16 + 20 * j) = 0"
  shows "scrape_loop buf (16 + 20 * j) acc = Some acc"
  using assms by (subst scrape_loop.simps) (simp add: go_index_def)

lemma scrape_loop_out:
  assumes "j < 70" "go_len buf \<le> 16 + 20 * j"
  shows "scrape_loop buf (16 + 20 * j) acc = None"
  using assms by (subst scrape_loop.simps) (simp add: go_index_def)

lemma udpScrapePacket_FromBytes_loop:
  "udpScrapePacket_FromBytes u buf =
     (case scrape_loop buf 16 [] of
        None \<Rightarrow> (udpScrapePacket_zero, Some (errors_New ''failed to create udpScrapePacket from bytes''))
      | Some hashes \<Rightarrow> (\<lparr>InfoHashes = hashes\<rparr>, None))"
  by (simp add: udpScrapePacket_FromBytes_def udpScrapePacket_body_def andThen_def recovered_def
      split: option.split)

lemma scrape_loop_overflow:
  assumes "j < 70" "16 + 20 * j < go_len buf" "elems buf ! (16 + 20 * j) \<noteq> 0"
    and "go_cap buf < 16 + 20 * j + 20"
  shows "scrape_loop buf (16 + 20 * j) acc = None"
  using assms by (subst scrape_loop.simps) (simp add: go_index_def go_slice_def)

lemma scrape_stop_exists:
  "\<exists>j\<le>(m::nat). (\<forall>k<j. P k) \<and> (j = m \<or> \<not> P j)"
proof (induction m)
  case 0
  show ?case by simp
next
  case (Suc m)
  then obtain j where j: "j \<le> m" "\<forall>k<j. P k" "j = m \<or> \<not> P j" by auto
  show ?case
  proof (cases "j = m \<and> P m")
    case True
    then have "\<forall>k<Suc m. P k"
      using j(2) by (auto simp: less_Suc_eq)
    then show ?thesis by auto
  next
    case False
    then have "\<not> P j" using j(3) by auto
    with j(1,2) show ?thesis
      by (intro exI [of _ j]) auto
  qed
qed

lemma scrape_stops_ok:
  assumes "j \<le> 70"
    and "\<forall>k<j. 16 + 20 * k < go_len buf \<and> elems buf ! (16 + 20 * k) \<noteq> 0 \<and>
               16 + 20 * k + 20 \<le> go_cap buf"
    and "j = 70 \<or> (16 + 20 * j < go_len buf \<and> elems buf ! (16 + 20 * j) = 0)"
  shows "udpScrapePacket_FromBytes u buf = (\<lparr>InfoHashes = map (info_hash_at buf) [0..<j]\<rparr>, None)"
proof -
  have run: "scrape_loop buf (16 + 20 * 0) [] =
          scrape_loop buf (16 + 20 * j) ([] @ map (info_hash_at buf) [0..<j])"
    using assms(1,2) by (intro scrape_loop_run) auto
  have "scrape_loop buf (16 + 20 * j) (map (info_hash_at buf) [0..<j]) =
      Some (map (info_hash_at buf) [0..<j])"
  proof (cases "j = 70")
    case True
    then show ?thesis by (simp only: scrape_loop_end)
  next
    case False
    then show ?thesis
      using assms(1,3) by (intro scrape_loop_zero) auto
  qed
  with run show ?thesis
    by (simp add: udpScrapePacket_FromBytes_loop)
qed

lemma scrape_stops_panic:
  assumes "j < 70"
    and "\<forall>k<j. 16 + 20 * k < go_len buf \<and> elems buf ! (16 + 20 * k) \<noteq> 0 \<and>
               16 + 20 * k + 20 \<le> go_cap buf"
    and "go_len buf \<le> 16 + 20 * j \<or>
         (elems buf ! (16 + 20 * j) \<noteq> 0 \<and> go_cap buf < 16 + 20 * j + 20)"
  shows "udpScrapePacket_FromBytes u buf =
           (udpScrapePacket_zero, Some (errors_New ''failed to create udpScrapePacket from bytes''))"
proof -
  have run: "scrape_loop buf (16 + 20 * 0) [] =
          scrape_loop buf (16 + 20 * j) ([] @ map (info_hash_at buf) [0..<j])"
    using assms(1,2) by (intro scrape_loop_run) auto
  have "scrape_loop buf (16 + 20 * j) (map (info_hash_at buf) [0..<j]) = None"
  proof (cases "go_len buf \<le> 16 + 20 * j")
    case True
    with assms(1) show ?thesis by (intro scrape_loop_out)
  next
    case False
    then show ?thesis
      using assms(1,3) by (intro scrape_loop_overflow) auto
  qed
  with run show ?thesis
    by (simp add: udpScrapePacket_FromBytes_loop)
qed

lemma scrape_stops_cases:
  "\<exists>j\<le>70.
     (\<forall>k<j. 16 + 20 * k < go_len buf \<and> elems buf ! (16 + 20 * k) \<noteq> 0 \<and>
            16 + 20 * k + 20 \<le> go_cap buf) \<and>
     ((j = 70 \<or> (16 + 20 * j < go_len buf \<and> elems buf ! (16 + 20 * j) = 0)) \<and>
      udpScrapePacket_FromBytes u buf = (\<lparr>InfoHashes = map (info_hash_at buf) [0..<j]\<rparr>, None) \<or>
      (j < 70 \<and> (go_len buf \<le> 16 + 20 * j \<or>
                  (elems buf ! (16 + 20 * j) \<noteq> 0 \<and> go_cap buf < 16 + 20 * j + 20))) \<and>
      udpScrapePacket_FromBytes u buf =
        (udpScrapePacket_zero, Some (errors_New ''failed to create udpScrapePacket from bytes'')))"
proof -
  let ?P = "\<lambda>k. 16 + 20 * k < go_len buf \<and> elems buf ! (16 + 20 * k) \<noteq> 0 \<and>
            16 + 20 * k + 20 \<le> go_cap buf"
  obtain j where j: "j \<le> 70" "\<forall>k<j. ?P k" "j = 70 \<or> \<not> ?P j"
    using scrape_stop_exists [of 70 ?P] by blast
  show ?thesis
  proof (cases "j = 70 \<or> (16 + 20 * j < go_len buf \<and> elems buf ! (16 + 20 * j) = 0)")
    case True
    with scrape_stops_ok [OF j(1,2) True, of u] j(1,2) show ?thesis
      by (intro exI [of _ j]) simp
  next
    case False
    then have lt: "j < 70" and stop: "go_len buf \<le> 16 + 20 * j \<or>
         (elems buf ! (16 + 20 * j) \<noteq> 0 \<and> go_cap buf < 16 + 20 * j + 20)"
      using j(1,3) by auto
    with scrape_stops_panic [OF lt j(2) stop, of u] j(1,2) show ?thesis
      by (intro exI [of _ j]) simp
  qed
qed

subsection \<open>Recovered panics\<close>




subsection \<open>The info-hashes of a scrape request\<close>

text \<open>
  Claim C9, as the code has it. A scrape request that holds more than 70 info-hashes,
  none of the first 70 beginning with a zero byte, is parsed into exactly its first 70
  info-hashes, in order; what follows them is not read.
\<close>

theorem scrape_first_70:
  assumes "16 + 20 * 71 \<le> go_len buf"
    and "\<forall>k<70. elems buf ! (16 + 20 * k) \<noteq> 0"
  shows "udpScrapePacket_FromBytes u buf = (\<lparr>InfoHashes = map (info_hash_at buf) [0..<70]\<rparr>, None)"
proof -
  have "go_len buf \<le> go_cap buf"
    by (simp add: go_len_def go_cap_def)
  then have "scrape_loop buf (16 + 20 * 0) [] =
          scrape_loop buf (16 + 20 * 70) ([] @ map (info_hash_at buf) [0..<70])"
    using assms by (intro scrape_loop_run) auto
  then have "scrape_loop buf 16 [] = Some (map (info_hash_at buf) [0..<70])"
    using scrape_loop_end [of buf "map (info_hash_at buf) [0..<70]"] by simp
  then show ?thesis
    by (simp add: udpScrapePacket_FromBytes_loop)
qed

theorem scrape_first_70_witness:
  "16 + 20 * 71 \<le> go_len (scrape_buffer (replicate (20 * 71) 1)) \<and>
   udpScrapePacket_FromBytes udpScrapePacket_zero (scrape_buffer (replicate (20 * 71) 1)) =
     (\<lparr>InfoHashes = map (info_hash_at (scrape_buffer (replicate (20 * 71) 1))) [0..<70]\<rparr>, None)"
  using scrape_first_70 [of "scrape_buffer (replicate (20 * 71) 1)" udpScrapePacket_zero]
  by (simp add: scrape_buffer_def go_len_def nth_append)

text \<open>
  Claim C9 as stated fails: a request of 71 info-hashes whose first info-hash begins with
  a zero byte is parsed into no info-hash at all.
\<close>

theorem scrape_first_70_counterexample:
  "go_len (scrape_buffer (0 # replicate (20 * 71 - 1) 1)) = 16 + 20 * 71 \<and>
   udpScrapePacket_FromBytes udpScrapePacket_zero (scrape_buffer (0 # replicate (20 * 71 - 1) 1)) =
     (\<lparr>InfoHashes = []\<rparr>, None) \<and>
   length (map (info_hash_at (scrape_buffer (0 # replicate (20 * 71 - 1) 1))) [0..<70]) = 70"
  by (simp add: udpScrapePacket_FromBytes_loop scrape_loop.simps [of _ 16] go_index_def
      go_len_def scrape_buffer_def nth_append)

text \<open>
  Claim C10, as the code has it. Before its bound of 70 info-hashes the loop stops only
  where the byte at the next offset is zero, or that offset is at or beyond the length of
  the buffer, or the twenty bytes at that offset reach beyond its capacity; the last two
  cases are panics, recovered into the zero packet and the error of the parser. Every
  buffer has exactly such a first stop. In particular a buffer of exactly
  \<open>16 + 20 K\<close> bytes with \<open>K < 70\<close> info-hashes, none beginning with a zero byte,
  gives the zero packet and the error, and an info-hash that begins with a zero byte ends
  the list: the packet holds the info-hashes before it and no other.
\<close>

theorem scrape_loop_stops:
  "(K < 70 \<and> go_len buf = 16 + 20 * K \<and> (\<forall>k<K. elems buf ! (16 + 20 * k) \<noteq> 0) \<longrightarrow>
      udpScrapePacket_FromBytes u buf =
        (udpScrapePacket_zero, Some (errors_New ''failed to create udpScrapePacket from bytes''))) \<and>
   (j < 70 \<and> 16 + 20 * j < go_len buf \<and> elems buf ! (16 + 20 * j) = 0 \<and>
    (\<forall>k<j. elems buf ! (16 + 20 * k) \<noteq> 0) \<longrightarrow>
      udpScrapePacket_FromBytes u buf = (\<lparr>InfoHashes = map (info_hash_at buf) [0..<j]\<rparr>, None)) \<and>
   (\<forall>i<70.
      (\<forall>k<i. 16 + 20 * k < go_len buf \<and> elems buf ! (16 + 20 * k) \<noteq> 0 \<and>
             16 + 20 * k + 20 \<le> go_cap buf) \<and>
      (go_len buf \<le> 16 + 20 * i \<or>
       (elems buf ! (16 + 20 * i) \<noteq> 0 \<and> go_cap buf < 16 + 20 * i + 20)) \<longrightarrow>
      udpScrapePacket_FromBytes u buf =
        (udpScrapePacket_zero, Some (errors_New ''failed to create udpScrapePacket from bytes''))) \<and>
   (\<forall>i\<le>70.
      (\<forall>k<i. 16 + 20 * k < go_len buf \<and> elems buf ! (16 + 20 * k) \<noteq> 0 \<and>
             16 + 20 * k + 20 \<le> go_cap buf) \<and>
      (i = 70 \<or> (16 + 20 * i < go_len buf \<and> elems buf ! (16 + 20 * i) = 0)) \<longrightarrow>
      udpScrapePacket_FromBytes u buf = (\<lparr>InfoHashes = map (info_hash_at buf) [0..<i]\<rparr>, None)) \<and>
   (\<exists>i\<le>70.
      (\<forall>k<i. 16 + 20 * k < go_len buf \<and> elems buf ! (16 + 20 * k) \<noteq> 0 \<and>
             16 + 20 * k + 20 \<le> go_cap buf) \<and>
      (i = 70 \<or> (16 + 20 * i < go_len buf \<and> elems buf ! (16 + 20 * i) = 0) \<or>
       go_len buf \<le> 16 + 20 * i \<or>
       (elems buf ! (16 + 20 * i) \<noteq> 0 \<and> go_cap buf < 16 + 20 * i + 20)))"
proof (intro conjI impI allI)
  assume a: "K < 70 \<and> go_len buf = 16 + 20 * K \<and> (\<forall>k<K. elems buf ! (16 + 20 * k) \<noteq> 0)"
  have "go_len buf \<le> go_cap buf"
    by (simp add: go_len_def go_cap_def)
  then have "\<forall>k<K. 16 + 20 * k < go_len buf \<and> elems buf ! (16 + 20 * k) \<noteq> 0 \<and>
               16 + 20 * k + 20 \<le> go_cap buf"
    using a by auto
  then show "udpScrapePacket_FromBytes u buf =
        (udpScrapePacket_zero, Some (errors_New ''failed to create udpScrapePacket from bytes''))"
    using a by (intro scrape_stops_panic [of K]) auto
next
  assume a: "j < 70 \<and> 16 + 20 * j < go_len buf \<and> elems buf ! (16 + 20 * j) = 0 \<and>
    (\<forall>k<j. elems buf ! (16 + 20 * k) \<noteq> 0)"
  have "go_len buf \<le> go_cap buf"
    by (simp add: go_len_def go_cap_def)
  then have "\<forall>k<j. 16 + 20 * k < go_len buf \<and> elems buf ! (16 + 20 * k) \<noteq> 0 \<and>
               16 + 20 * k + 20 \<le> go_cap buf"
    using a by auto
  then show "udpScrapePacket_FromBytes u buf = (\<lparr>InfoHashes = map (info_hash_at buf) [0..<j]\<rparr>, None)"
    using a by (intro scrape_stops_ok) auto
next
  fix i
  assume "i < 70"
    and "(\<forall>k<i. 16 + 20 * k < go_len buf \<and> elems buf ! (16 + 20 * k) \<noteq> 0 \<and>
             16 + 20 * k + 20 \<le> go_cap buf) \<and>
      (go_len buf \<le> 16 + 20 * i \<or>
       (elems buf ! (16 + 20 * i) \<noteq> 0 \<and> go_cap buf < 16 + 20 * i + 20))"
  then show "udpScrapePacket_FromBytes u buf =
        (udpScrapePacket_zero, Some (errors_New ''failed to create udpScrapePacket from bytes''))"
    by (intro scrape_stops_panic [of i]) auto
next
  fix i :: nat
  assume "i \<le> 70"
    and "(\<forall>k<i. 16 + 20 * k < go_len buf \<and> elems buf ! (16 + 20 * k) \<noteq> 0 \<and>
             16 + 20 * k + 20 \<le> go_cap buf) \<and>
      (i = 70 \<or> (16 + 20 * i < go_len buf \<and> elems buf ! (16 + 20 * i) = 0))"
  then show "udpScrapePacket_FromBytes u buf = (\<lparr>InfoHashes = map (info_hash_at buf) [0..<i]\<rparr>, None)"
    by (intro scrape_stops_ok) auto
next
  show "\<exists>i\<le>70.
      (\<forall>k<i. 16 + 20 * k < go_len buf \<and> elems buf ! (16 + 20 * k) \<noteq> 0 \<and>
             16 + 20 * k + 20 \<le> go_cap buf) \<and>
      (i = 70 \<or> (16 + 20 * i < go_len buf \<and> elems buf ! (16 + 20 * i) = 0) \<or>
       go_len buf \<le> 16 + 20 * i \<or>
       (elems buf ! (16 + 20 * i) \<noteq> 0 \<and> go_cap buf < 16 + 20 * i + 20))"
    using scrape_stops_cases [of buf u] by blast
qed

theorem scrape_loop_stops_witness:
  "go_len (scrape_buffer (replicate 40 1)) = 16 + 20 * 2 \<and>
   udpScrapePacket_FromBytes udpScrapePacket_zero (scrape_buffer (replicate 40 1)) =
     (udpScrapePacket_zero, Some (errors_New ''failed to create udpScrapePacket from bytes'')) \<and>
   udpScrapePacket_FromBytes udpScrapePacket_zero
       (scrape_buffer (replicate 20 1 @ 0 # replicate 39 1)) =
     (\<lparr>InfoHashes = [info_hash_at (scrape_buffer (replicate 20 1 @ 0 # replicate 39 1)) 0]\<rparr>, None) \<and>
   go_cap (scrape_buffer [1, 2]) < 16 + 20 \<and>
   udpScrapePacket_FromBytes udpScrapePacket_zero (scrape_buffer [1, 2]) =
     (udpScrapePacket_zero, Some (errors_New ''failed to create udpScrapePacket from bytes''))"
proof -
  have a: "go_len (scrape_buffer (replicate 40 1)) = 16 + 20 * 2 \<and>
   udpScrapePacket_FromBytes udpScrapePacket_zero (scrape_buffer (replicate 40 1)) =
     (udpScrapePacket_zero, Some (errors_New ''failed to create udpScrapePacket from bytes'')) \<and>
   udpScrapePacket_FromBytes udpScrapePacket_zero
       (scrape_buffer (replicate 20 1 @ 0 # replicate 39 1)) =
     (\<lparr>InfoHashes = [info_hash_at (scrape_buffer (replicate 20 1 @ 0 # replicate 39 1)) 0]\<rparr>, None)"
    using scrape_loop_stops [of 2 "scrape_buffer (replicate 40 1)" udpScrapePacket_zero 0]
      scrape_loop_stops
        [of 0 "scrape_buffer (replicate 20 1 @ 0 # replicate 39 1)" udpScrapePacket_zero 1]
    by (simp add: scrape_buffer_def go_len_def nth_append less_Suc_eq)
  have "(\<forall>k<0. 16 + 20 * k < go_len (scrape_buffer [1, 2]) \<and>
             elems (scrape_buffer [1, 2]) ! (16 + 20 * k) \<noteq> 0 \<and>
             16 + 20 * k + 20 \<le> go_cap (scrape_buffer [1, 2])) \<and>
      (go_len (scrape_buffer [1, 2]) \<le> 16 + 20 * 0 \<or>
       (elems (scrape_buffer [1, 2]) ! (16 + 20 * 0) \<noteq> 0 \<and>
        go_cap (scrape_buffer [1, 2]) < 16 + 20 * 0 + 20))"
    by (simp add: scrape_buffer_def go_cap_def nth_append)
  then have b: "udpScrapePacket_FromBytes udpScrapePacket_zero (scrape_buffer [1, 2]) =
     (udpScrapePacket_zero, Some (errors_New ''failed to create udpScrapePacket from bytes''))"
    using scrape_loop_stops [of 0 "scrape_buffer [1, 2]" udpScrapePacket_zero 0,
        THEN conjunct2, THEN conjunct2, THEN conjunct1, rule_format, of 0]
    by simp
  have c: "go_cap (scrape_buffer [1, 2]) < 16 + 20"
    by (simp add: scrape_buffer_def go_cap_def)
  show ?thesis
    using a b c by simp
qed

text \<open>
  Claim C10 as stated fails: in a buffer of 17 bytes the byte at offset 16 is inside the
  buffer and not zero, yet the loop ends there, by the panic of \<open>buf[16:36]\<close>.
\<close>

theorem scrape_loop_stops_counterexample:
  "go_len (scrape_buffer [1]) = 17 \<and> go_cap (scrape_buffer [1]) = 17 \<and>
   go_index (scrape_buffer [1]) 16 = Some 1 \<and>
   udpScrapePacket_FromBytes udpScrapePacket_zero (scrape_buffer [1]) =
     (udpScrapePacket_zero, Some (errors_New ''failed to create udpScrapePacket from bytes''))"
  by (simp add: udpScrapePacket_FromBytes_loop scrape_loop.simps [of _ 16] go_index_def
      go_slice_def go_len_def go_cap_def scrape_buffer_def nth_append)

end
